theory Spec2Isabelle
  imports Main "HOL-Library.Word" "HOL-Library.Monad_Syntax"
begin

unbundle bit_operations_syntax

section \<open>The probe buffer of pg\_retire.c\<close>

text \<open>
  A byte is an 8-bit word. The C types \<open>int\<close> and \<open>size_t\<close> are modelled by \<open>int\<close> and
  \<open>nat\<close>, with the conversions and the wrap-around of an LP64 platform written out where
  the source mixes them.
\<close>

type_synonym byte = "8 word"

definition WBUFSIZE :: nat where
  "WBUFSIZE = 128"

definition SIZE_MODULUS :: nat where
  \<comment> \<open>\<open>SIZE_MAX + 1\<close>: arithmetic in \<open>size_t\<close> is modulo this number.\<close>
  "SIZE_MODULUS = 2 ^ 64"

definition PTRDIFF_MAX :: nat where
  \<comment> \<open>No C object is larger than this many bytes.\<close>
  "PTRDIFF_MAX = 2 ^ 63 - 1"

definition size_t_of_int :: "int \<Rightarrow> nat" where
  \<comment> \<open>The usual arithmetic conversion of an \<open>int\<close> operand that meets a \<open>size_t\<close> one.\<close>
  "size_t_of_int i = nat (i mod int SIZE_MODULUS)"

definition size_t_add :: "nat \<Rightarrow> nat \<Rightarrow> nat" where
  "size_t_add a b = (a + b) mod SIZE_MODULUS"

text \<open>
  \<open>struct CharBuffer { char buf[WBUFSIZE]; int pos; }\<close>. The array is a list that a
  well-formed buffer keeps at length \<open>WBUFSIZE\<close>.
\<close>

record CharBuffer =
  buf :: "byte list"
  pos :: int

text \<open>
  The copy loop of \<open>write_cbuf\<close>: \<open>while (i++ < len) *dst++ = *src++;\<close>, with the
  destination pointer as an index into the array.
\<close>

fun copy_loop :: "byte list \<Rightarrow> nat \<Rightarrow> byte list \<Rightarrow> byte list" where
  "copy_loop b d [] = b"
| "copy_loop b d (x # xs) = copy_loop (b[d := x]) (Suc d) xs"

text \<open>
  \<open>write_cbuf(cb, src, len)\<close>, the source bytes given as the list of the \<open>len\<close> bytes at
  \<open>src\<close>. The guard \<open>cb->pos + len <= WBUFSIZE\<close> is evaluated in \<open>size_t\<close>. A store outside
  the array is undefined behaviour in C: the model returns \<open>None\<close> there. Otherwise the
  result is the buffer after the call and the returned \<open>int\<close> (\<open>len\<close> or \<open>-1\<close>).
\<close>

definition write_cbuf :: "CharBuffer \<Rightarrow> byte list \<Rightarrow> (CharBuffer \<times> int) option" where
  "write_cbuf cb src =
     (let len = length src in
      if size_t_add (size_t_of_int (pos cb)) (len mod SIZE_MODULUS) \<le> WBUFSIZE then
        (if 0 \<le> pos cb \<and> nat (pos cb) + len \<le> length (buf cb) then
           Some (cb\<lparr>buf := copy_loop (buf cb) (nat (pos cb)) src,
                    pos := pos cb + int len\<rparr>, int len)
         else None)
      else Some (cb, - 1))"

section \<open>The probe message\<close>

text \<open>
  Compile-time configuration: the two feature macros the source tests with \<open>#ifdef\<close>, and
  the byte order of the host, on which \<open>htonl\<close> and the bytes of an \<open>int\<close> in memory depend.
\<close>

record platform =
  USE_SSL :: bool
  HAVE_SETSID :: bool
  little_endian :: bool

text \<open>
  \<open>Port\<close> is PostgreSQL's connection structure; the source reads these three fields.
  \<open>PG_PROTOCOL_MAJOR(v)\<close> is PostgreSQL's \<open>((v) >> 16)\<close> on the unsigned 32-bit protocol
  version.
\<close>

record Port =
  sock :: int
  proto :: "32 word"
  ssl_in_use :: bool

definition PG_PROTOCOL_MAJOR :: "32 word \<Rightarrow> 32 word" where
  "PG_PROTOCOL_MAJOR v = drop_bit 16 v"

text \<open>
  A string literal is the array of its characters and a terminating NUL; \<open>sizeof\<close> of the
  literal is the length of that array.
\<close>

definition cstring :: "string \<Rightarrow> byte list" where
  "cstring s = map of_char s @ [0]"

definition sizeof_literal :: "string \<Rightarrow> nat" where
  "sizeof_literal s = length (cstring s)"

definition PGRETIRE_DUMMY_PAREMETER_NAME :: string where
  "PGRETIRE_DUMMY_PAREMETER_NAME = ''pg_retire_dummy_name''"

definition PGRETIRE_DUMMY_PAREMETER_VALUE :: string where
  "PGRETIRE_DUMMY_PAREMETER_VALUE = ''pg_retire_dummy_value''"

definition PGRETIRE_KEEP_ALIVE_MESSAGE :: string where
  "PGRETIRE_KEEP_ALIVE_MESSAGE = ''keep alive checking from pg_retire''"

text \<open>
  \<open>htonl\<close> swaps the four bytes on a little-endian host and is the identity on a big-endian
  one. \<open>object_bytes\<close> is what \<open>write_cbuf(&cb, &plen, sizeof(plen))\<close> reads: the four bytes
  of the \<open>int\<close> in memory, in address order.
\<close>

definition htonl :: "platform \<Rightarrow> 32 word \<Rightarrow> 32 word" where
  "htonl pf x =
     (if little_endian pf then
        push_bit 24 (take_bit 8 x) OR push_bit 16 (take_bit 8 (drop_bit 8 x))
        OR push_bit 8 (take_bit 8 (drop_bit 16 x)) OR drop_bit 24 x
      else x)"

definition object_bytes :: "platform \<Rightarrow> 32 word \<Rightarrow> byte list" where
  "object_bytes pf x =
     (if little_endian pf
      then [ucast x, ucast (drop_bit 8 x), ucast (drop_bit 16 x), ucast (drop_bit 24 x)]
      else [ucast (drop_bit 24 x), ucast (drop_bit 16 x), ucast (drop_bit 8 x), ucast x])"

text \<open>
  The first part of \<open>send_dummy_message_to_frontend\<close>, up to the call of \<open>flush_cbuf\<close>.
  The array \<open>cb.buf\<close> is an uninitialised local: its contents at entry are the parameter
  \<open>b0\<close>. The source discards what \<open>write_cbuf\<close> returns; the model hands these values back
  in call order beside the buffer, so that they can be spoken about.
\<close>

definition build_dummy_message ::
  "platform \<Rightarrow> Port \<Rightarrow> byte list \<Rightarrow> (CharBuffer \<times> int list) option" where
  "build_dummy_message pf port b0 =
     (let cb = \<lparr>buf = b0, pos = 0\<rparr> in
      if 3 \<le> PG_PROTOCOL_MAJOR (proto port) then
        do {
          (cb, r1) \<leftarrow> write_cbuf cb (take 1 (cstring ''S''));
          let plen = (of_nat (sizeof_literal PGRETIRE_DUMMY_PAREMETER_NAME
                               + sizeof_literal PGRETIRE_DUMMY_PAREMETER_VALUE + 4) :: 32 word);
          let plen = htonl pf plen;
          (cb, r2) \<leftarrow> write_cbuf cb (object_bytes pf plen);
          (cb, r3) \<leftarrow> write_cbuf cb (take (sizeof_literal PGRETIRE_DUMMY_PAREMETER_NAME)
                                           (cstring PGRETIRE_DUMMY_PAREMETER_NAME));
          (cb, r4) \<leftarrow> write_cbuf cb (take (sizeof_literal PGRETIRE_DUMMY_PAREMETER_VALUE)
                                           (cstring PGRETIRE_DUMMY_PAREMETER_VALUE));
          Some (cb, [r1, r2, r3, r4])
        }
      else
        do {
          (cb, r1) \<leftarrow> write_cbuf cb (take 1 (cstring ''N''));
          (cb, r2) \<leftarrow> write_cbuf cb (take (sizeof_literal PGRETIRE_KEEP_ALIVE_MESSAGE)
                                           (cstring PGRETIRE_KEEP_ALIVE_MESSAGE));
          Some (cb, [r1, r2])
        })"

text \<open>
  The big-endian encoding of a 32-bit number, most significant byte first: what the wire
  format asks the length field to be.
\<close>

definition be32 :: "32 word \<Rightarrow> byte list" where
  "be32 x = [ucast (drop_bit 24 x), ucast (drop_bit 16 x), ucast (drop_bit 8 x), ucast x]"

text \<open>The bytes a buffer holds: the part of the array below the cursor.\<close>

definition contents :: "CharBuffer \<Rightarrow> byte list" where
  "contents cb = take (nat (pos cb)) (buf cb)"

section \<open>The process state\<close>

text \<open>
  What the functions of pg\_retire.c read and change: the module's own variables, the
  PostgreSQL globals it consults, and the parts of the host it acts on. The host parts are
  kept as observations: the signals sent with \<open>kill\<close>, the bytes the socket has taken, the
  number of \<open>write\<close> calls made, the signal mask and the messages given to \<open>ereport\<close>.
  What \<open>write\<close> answers is not decided by the program: \<open>sock_script\<close> gives the answer to
  each call, by call number. \<open>stack_r\<close> and \<open>stack_buf\<close> are the indeterminate values that
  the uninitialised locals \<open>r\<close> of \<open>flush_cbuf\<close> and \<open>cb.buf\<close> of
  \<open>send_dummy_message_to_frontend\<close> hold at entry.
\<close>

datatype wresult =
    Wrote int        \<comment> \<open>\<open>write\<close> returns this number; \<open>errno\<close> is left alone\<close>
  | WError int       \<comment> \<open>\<open>write\<close> returns \<open>-1\<close> and sets \<open>errno\<close> to this value\<close>

datatype elevel = DEBUG3 | WARNING

record timeout_params =
  indicator :: bool
  fin_time :: int
  active :: bool

record world =
  MyTimeoutId :: nat
  pg_retire_enable :: bool
  pg_retire_interval :: int
  InterruptPending :: bool
  ParallelMessagePending :: bool
  errno :: int
  all_timeouts :: "nat \<Rightarrow> timeout_params"
  now :: int
  MyProcPid :: int
  MyProcPort :: Port
  kills :: "(int \<times> int) list"
  sock_script :: "nat \<Rightarrow> wresult"
  nwrites :: nat
  sent :: "byte list"
  sigmask_blocked :: bool
  elog :: "(elevel \<times> string) list"
  stack_r :: int
  stack_buf :: "byte list"

text \<open>Constants of the host: Linux's error numbers and signal number, PostgreSQL's limits.\<close>

definition EINTR :: int where
  "EINTR = 4"

definition EAGAIN :: int where
  "EAGAIN = 11"

definition EWOULDBLOCK :: int where
  "EWOULDBLOCK = 11"

definition SIGINT :: int where
  "SIGINT = 2"

definition MAX_TIMEOUTS :: nat where
  "MAX_TIMEOUTS = 16"

definition INT_MAX :: int where
  "INT_MAX = 2 ^ 31 - 1"

definition TIMEOUT_INVALID :: "world \<Rightarrow> bool" where
  "TIMEOUT_INVALID w = (MyTimeoutId w = MAX_TIMEOUTS)"

text \<open>
  \<open>MILLISECONDS(sec)\<close> is \<open>(sec * 1000)\<close> on a 32-bit \<open>int\<close>. A product outside the range
  of \<open>int\<close> is an overflow; the model gives the two's complement result that the hardware
  multiplication leaves.
\<close>

definition int32_wrap :: "int \<Rightarrow> int" where
  "int32_wrap x = (x + 2 ^ 31) mod 2 ^ 32 - 2 ^ 31"

definition MILLISECONDS :: "int \<Rightarrow> int" where
  "MILLISECONDS sec = int32_wrap (sec * 1000)"

text \<open>
  The range that \<open>_PG_init\<close> declares for \<open>pg_retire.interval\<close> with
  \<open>DefineCustomIntVariable\<close>: minimum \<open>0\<close>, maximum \<open>INT_MAX\<close>.
\<close>

definition interval_in_declared_range :: "int \<Rightarrow> bool" where
  "interval_in_declared_range i = (0 \<le> i \<and> i \<le> INT_MAX)"

subsection \<open>The host's services\<close>

text \<open>
  Modelled from the spec: PostgreSQL's timer subsystem (\<open>utils/timeout.c\<close>) is not part of
  this repository. The spec names its interface: \<open>enable_after(handle, milliseconds)\<close>,
  \<open>is_fired(handle)\<close> and \<open>finish_time(handle)\<close>, the last giving a timestamp or zero.
  Timestamps count microseconds. Enabling a timeout clears its fired indicator, sets its
  finish time to the current time plus the delay, and makes it pending.
\<close>

definition GetCurrentTimestamp :: "world \<Rightarrow> int" where
  \<comment> \<open>Modelled from the spec: the host's clock, the "now" of the scheduler's contract.\<close>
  "GetCurrentTimestamp w = now w"

definition get_timeout_indicator :: "world \<Rightarrow> nat \<Rightarrow> bool \<Rightarrow> bool \<times> world" where
  \<comment> \<open>Modelled from the spec: \<open>is_fired(handle)\<close> of the timer subsystem; the flag asks
      for the indicator to be cleared after it is read.\<close>
  "get_timeout_indicator w tid reset_indicator =
     (indicator (all_timeouts w tid),
      if reset_indicator
      then w\<lparr>all_timeouts := (all_timeouts w)(tid := (all_timeouts w tid)\<lparr>indicator := False\<rparr>)\<rparr>
      else w)"

definition get_timeout_finish_time :: "world \<Rightarrow> nat \<Rightarrow> int" where
  \<comment> \<open>Modelled from the spec: \<open>finish_time(handle)\<close> of the timer subsystem.\<close>
  "get_timeout_finish_time w tid = fin_time (all_timeouts w tid)"

definition enable_timeout_after :: "world \<Rightarrow> nat \<Rightarrow> int \<Rightarrow> world" where
  \<comment> \<open>Modelled from the spec: \<open>enable_after(handle, milliseconds)\<close> of the timer subsystem.\<close>
  "enable_timeout_after w tid delay_ms =
     w\<lparr>all_timeouts := (all_timeouts w)
          (tid := \<lparr>indicator = False,
                   fin_time = GetCurrentTimestamp w + delay_ms * 1000,
                   active = True\<rparr>)\<rparr>"

text \<open>\<open>ereport\<close> below the error levels only emits a message.\<close>

definition ereport :: "world \<Rightarrow> elevel \<Rightarrow> string \<Rightarrow> world" where
  "ereport w lvl msg = w\<lparr>elog := elog w @ [(lvl, msg)]\<rparr>"

definition PG_SETMASK :: "world \<Rightarrow> bool \<Rightarrow> world" where
  \<comment> \<open>\<open>PG_SETMASK(&BlockSig)\<close> is \<open>PG_SETMASK w True\<close>, \<open>PG_SETMASK(&UnBlockSig)\<close> is \<open>PG_SETMASK w False\<close>.\<close>
  "PG_SETMASK w blocked = w\<lparr>sigmask_blocked := blocked\<rparr>"

definition kill :: "world \<Rightarrow> int \<Rightarrow> int \<Rightarrow> world" where
  "kill w pid sig = w\<lparr>kills := kills w @ [(pid, sig)]\<rparr>"

text \<open>
  \<open>write(port->sock, cb->buf + offset, wlen)\<close>: the script gives the answer; the bytes
  taken are the first ones of the range handed over. A conforming host answers with at most
  the count it was given; the loop of \<open>flush_cbuf\<close> has a branch for an answer beyond it, so
  the script is not restricted.
\<close>

definition sys_write :: "world \<Rightarrow> byte list \<Rightarrow> int \<Rightarrow> int \<Rightarrow> int \<times> world" where
  "sys_write w b offset count =
     (case sock_script w (nwrites w) of
        Wrote n \<Rightarrow>
          (n, w\<lparr>nwrites := Suc (nwrites w),
                 sent := sent w @ take (nat n) (drop (nat offset) b)\<rparr>)
      | WError e \<Rightarrow>
          (- 1, w\<lparr>errno := e, nwrites := Suc (nwrites w)\<rparr>))"

section \<open>The functions of pg\_retire.c\<close>

text \<open>
  The loop \<open>for (;;)\<close> of \<open>flush_cbuf\<close>. It may run forever (a \<open>write\<close> that is
  interrupted every time), so it is a partial function: \<open>None\<close> is the loop that does not
  return. The local \<open>r\<close> is carried from one round to the next, because the branch taken
  when the connection uses SSL leaves it as it was.
\<close>

partial_function (option) flush_loop ::
  "platform \<Rightarrow> byte list \<Rightarrow> Port \<Rightarrow> int \<Rightarrow> int \<Rightarrow> int \<Rightarrow> world \<Rightarrow> (int \<times> world) option" where
  "flush_loop pf b port wlen offset r w =
     (let (r, w) =
            (if USE_SSL pf \<and> ssl_in_use port
             then (r, ereport w DEBUG3 ''pg_retire does not support use in ssl'')
             else sys_write w b offset wlen)
      in if r > 0 then
           (let wlen = wlen - r in
            if wlen = 0 then Some (0, w)
            else if wlen < 0 then
              Some (- 1, ereport w WARNING ''pg_retire failed to write keep alive packet'')
            else flush_loop pf b port wlen (offset + r) r w)
         else if errno w = EINTR then flush_loop pf b port wlen offset r w
         else if errno w = EAGAIN \<or> errno w = EWOULDBLOCK then Some (0, w)
         else Some (- 1, w))"

definition flush_cbuf :: "platform \<Rightarrow> CharBuffer \<Rightarrow> Port \<Rightarrow> world \<Rightarrow> (int \<times> world) option" where
  "flush_cbuf pf cb port w =
     (if pos cb = 0 then Some (0, w)
      else flush_loop pf (buf cb) port (pos cb) 0 (stack_r w) w)"

text \<open>
  \<open>None\<close> from here on: the call has no defined return, because the construction stored
  outside the array or because the flush loop runs forever.
\<close>

definition send_dummy_message_to_frontend :: "platform \<Rightarrow> world \<Rightarrow> (int \<times> world) option" where
  "send_dummy_message_to_frontend pf w =
     do {
       (cb, rets) \<leftarrow> build_dummy_message pf (MyProcPort w) (stack_buf w);
       flush_cbuf pf cb (MyProcPort w) w
     }"

definition doSanityCheck :: "platform \<Rightarrow> world \<Rightarrow> (bool \<times> world) option" where
  "doSanityCheck pf w =
     do {
       (status, w) \<leftarrow> send_dummy_message_to_frontend pf w;
       if status \<noteq> 0 then Some (False, w) else Some (True, w)
     }"

definition cancelTransaction :: "platform \<Rightarrow> world \<Rightarrow> world" where
  "cancelTransaction pf w =
     (let sig = SIGINT;
          w = (if HAVE_SETSID pf then kill w (- MyProcPid w) sig else w)
      in kill w (MyProcPid w) sig)"

definition maybeScheduleAlarm :: "world \<Rightarrow> bool \<times> world" where
  "maybeScheduleAlarm w =
     (if TIMEOUT_INVALID w then (False, w)
      else
        let (timer_fired, w) = get_timeout_indicator w (MyTimeoutId w) False in
        if timer_fired
        then (True, enable_timeout_after w (MyTimeoutId w) (MILLISECONDS (pg_retire_interval w)))
        else
          let now = GetCurrentTimestamp w;
              fin_time = get_timeout_finish_time w (MyTimeoutId w)
          in if fin_time \<noteq> 0 \<and> now < fin_time then (False, w)
             else (True, enable_timeout_after w (MyTimeoutId w)
                           (MILLISECONDS (pg_retire_interval w))))"

text \<open>
  The macro \<open>RETURN_IF_INTERRUPT_PENDING\<close> returns from the function that uses it when
  this test holds.
\<close>

definition INTERRUPT_PENDING_TEST :: "world \<Rightarrow> bool" where
  "INTERRUPT_PENDING_TEST w = (\<not> ParallelMessagePending w \<and> InterruptPending w)"

definition pg_retire_alarm_handler :: "platform \<Rightarrow> world \<Rightarrow> world option" where
  "pg_retire_alarm_handler pf w =
     (let save_errno = errno w in
      if INTERRUPT_PENDING_TEST w then Some w
      else
        do {
          let w = PG_SETMASK w True;
          (alive, w) \<leftarrow> doSanityCheck pf w;
          let w = (if alive then
                     (let (scheduled, w) = maybeScheduleAlarm w in
                      if scheduled
                      then ereport w DEBUG3 ''rescheduled pg_retire alarm after %d seconds again''
                      else w)
                   else cancelTransaction pf w);
          let w = PG_SETMASK w False;
          Some (w\<lparr>errno := save_errno\<rparr>)
        })"

text \<open>
  \<open>pg_retire_post_parse_analyze\<close>. The hook saved in \<open>prev_post_parse_analyze\<close> belongs to
  another module: it is a parameter, \<open>None\<close> for the null pointer. Of the query only the
  command type is read.
\<close>

datatype CmdType =
  CMD_UNKNOWN | CMD_SELECT | CMD_UPDATE | CMD_INSERT | CMD_DELETE | CMD_UTILITY | CMD_NOTHING

definition call_prev_hook :: "(world \<Rightarrow> world) option \<Rightarrow> world \<Rightarrow> world" where
  "call_prev_hook prev w = (case prev of None \<Rightarrow> w | Some h \<Rightarrow> h w)"

definition pg_retire_post_parse_analyze ::
  "(world \<Rightarrow> world) option \<Rightarrow> CmdType \<Rightarrow> world \<Rightarrow> world" where
  "pg_retire_post_parse_analyze prev_post_parse_analyze commandType w0 =
     (let w = call_prev_hook prev_post_parse_analyze w0 in
      if TIMEOUT_INVALID w \<or> \<not> pg_retire_enable w then w
      else if INTERRUPT_PENDING_TEST w then w
      else if commandType = CMD_UTILITY then w
      else
        let (scheduled, w) = maybeScheduleAlarm w in
        if scheduled
        then ereport w DEBUG3 ''scheduled pg_retire alarm after %d seconds again''
        else w)"

section \<open>Notions the statements use\<close>

text \<open>
  Arming a deadline is the call \<open>enable_timeout_after(MyTimeoutId,
  MILLISECONDS(pg_retire_interval))\<close>, which \<open>maybeScheduleAlarm\<close> makes in two places.
  The previous deadline has fired when the timer subsystem has set its indicator; a deadline
  is pending when its finish time is not zero and lies in the future.
\<close>

definition arm_deadline :: "world \<Rightarrow> world" where
  "arm_deadline w =
     enable_timeout_after w (MyTimeoutId w) (MILLISECONDS (pg_retire_interval w))"

definition deadline_fired :: "world \<Rightarrow> bool" where
  "deadline_fired w = indicator (all_timeouts w (MyTimeoutId w))"

definition deadline_pending :: "world \<Rightarrow> bool" where
  "deadline_pending w =
     (fin_time (all_timeouts w (MyTimeoutId w)) \<noteq> 0
      \<and> now w < fin_time (all_timeouts w (MyTimeoutId w)))"

section \<open>Example states\<close>

text \<open>
  A backend with process id 4242 that speaks protocol 3.0 over a plain socket, with a
  registered timeout, the watchdog enabled at an interval of five seconds, no deadline armed
  yet, and a peer that takes every byte offered. The other states differ from it in the one
  respect their name says.
\<close>

definition idle_timeouts :: "nat \<Rightarrow> timeout_params" where
  "idle_timeouts = (\<lambda>_. \<lparr>indicator = False, fin_time = 0, active = False\<rparr>)"

definition fired_timeouts :: "nat \<Rightarrow> timeout_params" where
  "fired_timeouts =
     idle_timeouts(9 := \<lparr>indicator = True, fin_time = 1000000, active = False\<rparr>)"

definition example_port :: Port where
  "example_port = \<lparr>sock = 7, proto = 0x30000, ssl_in_use = False\<rparr>"

definition example_platform :: platform where
  "example_platform = \<lparr>USE_SSL = True, HAVE_SETSID = True, little_endian = True\<rparr>"

definition example_world :: world where
  "example_world =
     \<lparr>MyTimeoutId = 9, pg_retire_enable = True, pg_retire_interval = 5,
      InterruptPending = False, ParallelMessagePending = False, errno = 0,
      all_timeouts = idle_timeouts, now = 1000000, MyProcPid = 4242,
      MyProcPort = example_port, kills = [], sock_script = (\<lambda>_. Wrote 48), nwrites = 0,
      sent = [], sigmask_blocked = False, elog = [], stack_r = 0,
      stack_buf = replicate 128 0\<rparr>"

definition fired_world :: world where
  "fired_world = example_world\<lparr>all_timeouts := fired_timeouts\<rparr>"

definition pending_world :: world where
  "pending_world = example_world\<lparr>all_timeouts :=
     idle_timeouts(9 := \<lparr>indicator = False, fin_time = 2000000, active = True\<rparr>)\<rparr>"

definition unregistered_world :: world where
  "unregistered_world = example_world\<lparr>MyTimeoutId := 16\<rparr>"

definition disabled_world :: world where
  "disabled_world = example_world\<lparr>pg_retire_enable := False, all_timeouts := fired_timeouts\<rparr>"

definition disabled_dead_world :: world where
  "disabled_dead_world = disabled_world\<lparr>sock_script := (\<lambda>_. WError 32)\<rparr>"

definition ssl_world :: world where
  "ssl_world = example_world\<lparr>MyProcPort := example_port\<lparr>ssl_in_use := True\<rparr>,
                               all_timeouts := fired_timeouts\<rparr>"

definition both_pending_world :: world where
  "both_pending_world =
     example_world\<lparr>InterruptPending := True, ParallelMessagePending := True\<rparr>"

definition cancelling_world :: world where
  "cancelling_world = example_world\<lparr>InterruptPending := True\<rparr>"

definition long_interval_world :: world where
  "long_interval_world = example_world\<lparr>pg_retire_interval := 2147484\<rparr>"

definition wouldblock_world :: world where
  "wouldblock_world = example_world\<lparr>sock_script := (\<lambda>_. WError 11)\<rparr>"

definition interrupted_world :: world where
  "interrupted_world =
     example_world\<lparr>sock_script := (\<lambda>k. if k = 0 then WError 4 else Wrote 48)\<rparr>"

definition partial_world :: world where
  "partial_world =
     example_world\<lparr>sock_script := (\<lambda>k. if k = 0 then Wrote 10 else Wrote 38)\<rparr>"

definition dead_world :: world where
  "dead_world = example_world\<lparr>sock_script := (\<lambda>_. WError 32)\<rparr>"

definition dead_after_probe :: world where
  "dead_after_probe = dead_world\<lparr>errno := 32, nwrites := 1, sigmask_blocked := True\<rparr>"

section \<open>Lemmas about the probe buffer and the message\<close>

lemma length_copy_loop: "length (copy_loop b d xs) = length b"
  by (induction xs arbitrary: b d) simp_all

lemma copy_loop_eq:
  "d + length xs \<le> length b \<Longrightarrow>
   copy_loop b d xs = take d b @ xs @ drop (d + length xs) b"
proof (induction xs arbitrary: b d)
  case Nil
  then show ?case by simp
next
  case (Cons x xs)
  from Cons.prems have d: "d < length b" and rest: "Suc d + length xs \<le> length b"
    by simp_all
  have "copy_loop (b[d := x]) (Suc d) xs =
        take (Suc d) (b[d := x]) @ xs @ drop (Suc d + length xs) (b[d := x])"
    using rest by (intro Cons.IH) simp
  also have "take (Suc d) (b[d := x]) = take d b @ [x]"
    using d by (simp add: take_Suc_conv_app_nth)
  also have "drop (Suc d + length xs) (b[d := x]) = drop (Suc d + length xs) b"
    by simp
  finally show ?case by simp
qed

lemma size_t_guard_exact:
  assumes "0 \<le> p" and "p \<le> 128" and "n \<le> PTRDIFF_MAX"
  shows "size_t_add (size_t_of_int p) (n mod SIZE_MODULUS) = nat p + n"
proof -
  have p: "size_t_of_int p = nat p"
    using assms(1,2) by (simp add: size_t_of_int_def SIZE_MODULUS_def)
  have n: "n mod SIZE_MODULUS = n"
    using assms(3) by (simp add: SIZE_MODULUS_def PTRDIFF_MAX_def)
  have "nat p + n < SIZE_MODULUS"
    using assms by (simp add: SIZE_MODULUS_def PTRDIFF_MAX_def)
  then show ?thesis
    by (simp add: size_t_add_def p n)
qed

lemma write_cbuf_fit:
  assumes "length (buf cb) = 128" "0 \<le> pos cb" "pos cb + int (length src) \<le> 128"
  shows "write_cbuf cb src = Some (\<lparr>buf = take (nat (pos cb)) (buf cb) @ src @ drop (nat (pos cb) + length src) (buf cb), pos = pos cb + int (length src)\<rparr>, int (length src))"
proof -
  have g: "size_t_add (size_t_of_int (pos cb)) (length src mod SIZE_MODULUS) = nat (pos cb) + length src"
    using assms by (intro size_t_guard_exact) (simp_all add: PTRDIFF_MAX_def)
  show ?thesis using assms
    by (simp add: write_cbuf_def g Let_def WBUFSIZE_def copy_loop_eq)
qed

lemma be32_htonl: "object_bytes pf (htonl pf x) = be32 x"
  unfolding object_bytes_def htonl_def be32_def
  apply (simp)
  apply (intro conjI impI)
  apply (rule bit_word_eqI; auto simp add: bit_simps)+
  done

lemma sizeof_name: "sizeof_literal PGRETIRE_DUMMY_PAREMETER_NAME = 21"
  by (simp add: sizeof_literal_def cstring_def PGRETIRE_DUMMY_PAREMETER_NAME_def)

lemma sizeof_value: "sizeof_literal PGRETIRE_DUMMY_PAREMETER_VALUE = 22"
  by (simp add: sizeof_literal_def cstring_def PGRETIRE_DUMMY_PAREMETER_VALUE_def)

lemma sizeof_notice: "sizeof_literal PGRETIRE_KEEP_ALIVE_MESSAGE = 35"
  by (simp add: sizeof_literal_def cstring_def PGRETIRE_KEEP_ALIVE_MESSAGE_def)

lemma tag_S: "take (Suc 0) (cstring ''S'') = [0x53]"
  by (simp add: cstring_def)

lemma tag_N: "take (Suc 0) (cstring ''N'') = [0x4E]"
  by (simp add: cstring_def)

lemma take_sizeof: "take (sizeof_literal s) (cstring s) = cstring s"
  by (simp add: sizeof_literal_def)

lemma length_be32: "length (be32 x) = 4"
  by (simp add: be32_def)

lemma build_v3:
  assumes "length b0 = 128" "3 \<le> PG_PROTOCOL_MAJOR (proto port)"
  shows "build_dummy_message pf port b0 =
     Some (\<lparr>buf = [0x53] @ be32 47 @ cstring PGRETIRE_DUMMY_PAREMETER_NAME @ cstring PGRETIRE_DUMMY_PAREMETER_VALUE @ drop 48 b0, pos = 48\<rparr>, [1, 4, 21, 22])"
proof -
  have n: "length (cstring PGRETIRE_DUMMY_PAREMETER_NAME) = 21"
    and v: "length (cstring PGRETIRE_DUMMY_PAREMETER_VALUE) = 22"
    using sizeof_name sizeof_value by (simp_all add: sizeof_literal_def)
  show ?thesis
    using assms
    by (simp add: build_dummy_message_def write_cbuf_fit be32_htonl take_sizeof tag_S
        sizeof_name sizeof_value length_be32 n v)
qed

lemma build_v2:
  assumes "length b0 = 128" "\<not> 3 \<le> PG_PROTOCOL_MAJOR (proto port)"
  shows "build_dummy_message pf port b0 =
     Some (\<lparr>buf = [0x4E] @ cstring PGRETIRE_KEEP_ALIVE_MESSAGE @ drop 36 b0, pos = 36\<rparr>, [1, 35])"
proof -
  have m: "length (cstring PGRETIRE_KEEP_ALIVE_MESSAGE) = 35"
    using sizeof_notice by (simp add: sizeof_literal_def)
  show ?thesis
    using assms
    by (simp add: build_dummy_message_def write_cbuf_fit take_sizeof tag_N sizeof_notice m)
qed

section \<open>Lemmas about the flush loop\<close>

lemma flush_loop_plain:
  assumes "\<not> (USE_SSL pf \<and> ssl_in_use port)"
  shows "flush_loop pf b port wlen offset r w =
     (case sock_script w (nwrites w) of
        Wrote n \<Rightarrow>
          (let w' = w\<lparr>nwrites := Suc (nwrites w), sent := sent w @ take (nat n) (drop (nat offset) b)\<rparr> in
           if n > 0 then
             (if wlen - n = 0 then Some (0, w')
              else if wlen - n < 0 then Some (- 1, ereport w' WARNING ''pg_retire failed to write keep alive packet'')
              else flush_loop pf b port (wlen - n) (offset + n) n w')
           else if errno w = EINTR then flush_loop pf b port wlen offset n w'
           else if errno w = EAGAIN \<or> errno w = EWOULDBLOCK then Some (0, w')
           else Some (- 1, w'))
      | WError e \<Rightarrow>
          (let w' = w\<lparr>errno := e, nwrites := Suc (nwrites w)\<rparr> in
           if e = EINTR then flush_loop pf b port wlen offset (- 1) w'
           else if e = EAGAIN \<or> e = EWOULDBLOCK then Some (0, w')
           else Some (- 1, w')))"
  using assms
  by (subst flush_loop.simps) (auto simp add: sys_write_def Let_def split: wresult.splits)

lemma flush_full_write:
  assumes "\<not> (USE_SSL pf \<and> ssl_in_use port)"
    and "sock_script w (nwrites w) = Wrote wlen" and "0 < wlen"
  shows "flush_loop pf b port wlen 0 r w
           = Some (0, w\<lparr>nwrites := Suc (nwrites w), sent := sent w @ take (nat wlen) b\<rparr>)"
  using assms(2,3) by (subst flush_loop_plain [OF assms(1)]) simp

lemma flush_wouldblock:
  assumes "\<not> (USE_SSL pf \<and> ssl_in_use port)"
    and "sock_script w (nwrites w) = WError e" and "e = EAGAIN \<or> e = EWOULDBLOCK"
  shows "flush_loop pf b port wlen offset r w = Some (0, w\<lparr>errno := e, nwrites := Suc (nwrites w)\<rparr>)"
  using assms(2,3)
  by (subst flush_loop_plain [OF assms(1)]) (auto simp add: EINTR_def EAGAIN_def EWOULDBLOCK_def)

lemma flush_hard_error:
  assumes "\<not> (USE_SSL pf \<and> ssl_in_use port)"
    and "sock_script w (nwrites w) = WError e"
    and "e \<noteq> EINTR" and "e \<noteq> EAGAIN" and "e \<noteq> EWOULDBLOCK"
  shows "flush_loop pf b port wlen offset r w = Some (- 1, w\<lparr>errno := e, nwrites := Suc (nwrites w)\<rparr>)"
  using assms(2-5) by (subst flush_loop_plain [OF assms(1)]) simp

lemma send_eq:
  assumes "length (stack_buf w) = 128"
  shows "send_dummy_message_to_frontend pf w =
    (if 3 \<le> PG_PROTOCOL_MAJOR (proto (MyProcPort w))
     then flush_loop pf ([0x53] @ be32 47 @ cstring PGRETIRE_DUMMY_PAREMETER_NAME @ cstring PGRETIRE_DUMMY_PAREMETER_VALUE @ drop 48 (stack_buf w)) (MyProcPort w) 48 0 (stack_r w) w
     else flush_loop pf ([0x4E] @ cstring PGRETIRE_KEEP_ALIVE_MESSAGE @ drop 36 (stack_buf w)) (MyProcPort w) 36 0 (stack_r w) w)"
  using assms
  by (simp add: send_dummy_message_to_frontend_def build_v3 build_v2 flush_cbuf_def)

section \<open>Lemmas about the scheduler\<close>

lemma maybeScheduleAlarm_eq:
  "maybeScheduleAlarm w =
    (if TIMEOUT_INVALID w then (False, w)
     else if deadline_fired w then (True, arm_deadline w)
     else if deadline_pending w then (False, w)
     else (True, arm_deadline w))"
  by (simp add: maybeScheduleAlarm_def get_timeout_indicator_def get_timeout_finish_time_def
      GetCurrentTimestamp_def arm_deadline_def deadline_fired_def deadline_pending_def Let_def)

lemma kills_arm [simp]: "kills (arm_deadline w) = kills w"
  by (simp add: arm_deadline_def enable_timeout_after_def)

lemma MILLISECONDS_exact:
  assumes "0 \<le> i" and "i \<le> 2147483"
  shows "MILLISECONDS i = i * 1000"
proof -
  have "0 \<le> i * 1000 + 2 ^ 31" and "i * 1000 + 2 ^ 31 < 2 ^ 32"
    using assms by simp_all
  then have "(i * 1000 + 2 ^ 31) mod 2 ^ 32 = i * 1000 + 2 ^ 31"
    by (rule mod_pos_pos_trivial)
  then show ?thesis
    by (simp add: MILLISECONDS_def int32_wrap_def)
qed

lemma arm_deadline_in_range:
  assumes "0 \<le> pg_retire_interval w" and "pg_retire_interval w \<le> 2147483"
  shows "fin_time (all_timeouts (arm_deadline w) (MyTimeoutId w))
           = now w + pg_retire_interval w * 1000000"
  using MILLISECONDS_exact [OF assms]
  by (simp add: arm_deadline_def enable_timeout_after_def GetCurrentTimestamp_def)

section \<open>Lemmas about the sanity check and the handlers\<close>

lemma doSanityCheck_eq:
  "doSanityCheck pf w =
     (case send_dummy_message_to_frontend pf w of
        None \<Rightarrow> None
      | Some (status, w') \<Rightarrow> Some (status = 0, w'))"
  by (auto simp add: doSanityCheck_def split: option.splits)

lemma probe_fields [simp]:
  "stack_buf (PG_SETMASK w m) = stack_buf w"
  "stack_r (PG_SETMASK w m) = stack_r w"
  "MyProcPort (PG_SETMASK w m) = MyProcPort w"
  "sock_script (PG_SETMASK w m) = sock_script w"
  "nwrites (PG_SETMASK w m) = nwrites w"
  "errno (PG_SETMASK w m) = errno w"
  "kills (PG_SETMASK w m) = kills w"
  by (simp_all add: PG_SETMASK_def)

lemma doSanityCheck_wouldblock:
  assumes "\<not> (USE_SSL pf \<and> ssl_in_use (MyProcPort w))"
    and "sock_script w (nwrites w) = WError e" and "e = EAGAIN \<or> e = EWOULDBLOCK"
    and "length (stack_buf w) = 128"
  shows "doSanityCheck pf w = Some (True, w\<lparr>errno := e, nwrites := Suc (nwrites w)\<rparr>)"
  using assms by (simp add: doSanityCheck_eq send_eq flush_wouldblock)

lemma doSanityCheck_hard_error:
  assumes "\<not> (USE_SSL pf \<and> ssl_in_use (MyProcPort w))"
    and "sock_script w (nwrites w) = WError e"
    and "e \<noteq> EINTR" and "e \<noteq> EAGAIN" and "e \<noteq> EWOULDBLOCK"
    and "length (stack_buf w) = 128"
  shows "doSanityCheck pf w = Some (False, w\<lparr>errno := e, nwrites := Suc (nwrites w)\<rparr>)"
  using assms by (simp add: doSanityCheck_eq send_eq flush_hard_error)

lemma kills_reschedule:
  "kills (case maybeScheduleAlarm w of (scheduled, w') \<Rightarrow> if scheduled then ereport w' lvl msg else w')
     = kills w"
  by (simp add: maybeScheduleAlarm_eq ereport_def)

lemma handler_after_check:
  assumes "\<not> INTERRUPT_PENDING_TEST w"
    and "doSanityCheck pf (PG_SETMASK w True) = Some (alive, w1)"
  shows "pg_retire_alarm_handler pf w =
     Some ((if alive then
              (case maybeScheduleAlarm w1 of (scheduled, w2) \<Rightarrow>
                 if scheduled
                 then ereport w2 DEBUG3 ''rescheduled pg_retire alarm after %d seconds again''
                 else w2)
            else cancelTransaction pf w1)\<lparr>sigmask_blocked := False, errno := errno w\<rparr>)"
  using assms by (simp add: pg_retire_alarm_handler_def Let_def PG_SETMASK_def)

lemma handler_wouldblock:
  assumes "\<not> (USE_SSL pf \<and> ssl_in_use (MyProcPort w))"
    and "sock_script w (nwrites w) = WError e" and "e = EAGAIN \<or> e = EWOULDBLOCK"
    and "length (stack_buf w) = 128" and "\<not> INTERRUPT_PENDING_TEST w"
  shows "\<exists>w'. pg_retire_alarm_handler pf w = Some w' \<and> kills w' = kills w"
proof -
  have "doSanityCheck pf (PG_SETMASK w True)
          = Some (True, (PG_SETMASK w True)\<lparr>errno := e, nwrites := Suc (nwrites w)\<rparr>)"
    using assms(1-4) doSanityCheck_wouldblock [of pf "PG_SETMASK w True" e] by simp
  then show ?thesis
    using assms(5)
    by (simp add: pg_retire_alarm_handler_def Let_def kills_reschedule PG_SETMASK_def)
qed

lemma post_parse_analyze_disabled:
  assumes "\<not> pg_retire_enable (call_prev_hook prev w)"
  shows "pg_retire_post_parse_analyze prev commandType w = call_prev_hook prev w"
  using assms by (simp add: pg_retire_post_parse_analyze_def Let_def)

section \<open>The claims\<close>

text \<open>
  Claim C1 says that once \<open>pg_retire.enable\<close> is off no deadline is armed any more, and
  that an armed deadline that fires then makes the handler do nothing. The hook
  \<open>pg_retire_post_parse_analyze\<close> tests the variable (lemma \<open>post_parse_analyze_disabled\<close>);
  \<open>pg_retire_alarm_handler\<close> and \<open>maybeScheduleAlarm\<close> do not. With the variable off and a
  deadline that has fired, the handler still probes (one \<open>write\<close>, of the 48 bytes of the
  message) and arms the next deadline five seconds ahead; and when the write fails it still
  sends the two signals.
\<close>

theorem alarm_handler_ignores_enable:
  "\<not> pg_retire_enable disabled_world
   \<and> \<not> pg_retire_enable disabled_dead_world
   \<and> (\<exists>w'. pg_retire_alarm_handler example_platform disabled_world = Some w'
          \<and> nwrites w' = 1 \<and> length (sent w') = 48
          \<and> active (all_timeouts w' (MyTimeoutId w'))
          \<and> fin_time (all_timeouts w' (MyTimeoutId w')) = now disabled_world + 5000000)
   \<and> (\<exists>w'. pg_retire_alarm_handler example_platform disabled_dead_world = Some w'
          \<and> nwrites w' = 1 \<and> kills w' = [(- 4242, SIGINT), (4242, SIGINT)])"
proof -
  have a: "doSanityCheck example_platform (PG_SETMASK disabled_world True)
            = Some (True, (PG_SETMASK disabled_world True)
                 \<lparr>nwrites := 1,
                  sent := take 48 ([0x53] @ be32 47 @ cstring PGRETIRE_DUMMY_PAREMETER_NAME
                            @ cstring PGRETIRE_DUMMY_PAREMETER_VALUE @ drop 48 (replicate 128 0))\<rparr>)"
    by (simp add: doSanityCheck_eq send_eq flush_full_write PG_SETMASK_def disabled_world_def
        example_world_def example_port_def PG_PROTOCOL_MAJOR_def)
  have n: "length (cstring PGRETIRE_DUMMY_PAREMETER_NAME) = 21"
    and v: "length (cstring PGRETIRE_DUMMY_PAREMETER_VALUE) = 22"
    using sizeof_name sizeof_value by (simp_all add: sizeof_literal_def)
  have idle: "\<not> INTERRUPT_PENDING_TEST disabled_world"
    by (simp add: INTERRUPT_PENDING_TEST_def disabled_world_def example_world_def)
  have first: "\<exists>w'. pg_retire_alarm_handler example_platform disabled_world = Some w'
          \<and> nwrites w' = 1 \<and> length (sent w') = 48
          \<and> active (all_timeouts w' (MyTimeoutId w'))
          \<and> fin_time (all_timeouts w' (MyTimeoutId w')) = now disabled_world + 5000000"
    unfolding handler_after_check [OF idle a]
    by (simp add: maybeScheduleAlarm_eq TIMEOUT_INVALID_def
        MAX_TIMEOUTS_def deadline_fired_def arm_deadline_def enable_timeout_after_def
        GetCurrentTimestamp_def MILLISECONDS_def int32_wrap_def ereport_def PG_SETMASK_def
        disabled_world_def example_world_def fired_timeouts_def length_be32 n v)
  have second: "\<exists>w'. pg_retire_alarm_handler example_platform disabled_dead_world = Some w'
          \<and> nwrites w' = 1 \<and> kills w' = [(- 4242, SIGINT), (4242, SIGINT)]"
    by (simp add: pg_retire_alarm_handler_def doSanityCheck_eq send_eq flush_hard_error
        PG_SETMASK_def cancelTransaction_def kill_def INTERRUPT_PENDING_TEST_def
        disabled_dead_world_def disabled_world_def example_world_def example_port_def
        example_platform_def PG_PROTOCOL_MAJOR_def EINTR_def EAGAIN_def EWOULDBLOCK_def)
  show ?thesis
    using first second
    by (simp add: disabled_dead_world_def disabled_world_def example_world_def)
qed

text \<open>
  Claim C2. For protocol major version 3 or later, whatever the byte order of the host and
  whatever the array held before, the message built is: the byte \<open>S\<close>; the total length
  \<open>len(key) + 1 + len(value) + 1 + 4\<close> as four bytes, most significant first; the key, a NUL;
  the value, a NUL; and nothing else.
\<close>

theorem modern_probe_message:
  assumes "3 \<le> PG_PROTOCOL_MAJOR (proto port)" and "length b0 = WBUFSIZE"
  shows "\<exists>cb rets. build_dummy_message pf port b0 = Some (cb, rets)
           \<and> contents cb =
               [of_char (CHR ''S'')]
               @ be32 (of_nat (length PGRETIRE_DUMMY_PAREMETER_NAME + 1
                               + length PGRETIRE_DUMMY_PAREMETER_VALUE + 1 + 4))
               @ (map of_char PGRETIRE_DUMMY_PAREMETER_NAME @ [0])
               @ (map of_char PGRETIRE_DUMMY_PAREMETER_VALUE @ [0])
           \<and> length (contents cb) = 1 + 4 + (length PGRETIRE_DUMMY_PAREMETER_NAME + 1)
                                       + (length PGRETIRE_DUMMY_PAREMETER_VALUE + 1)"
proof -
  have n: "length (cstring PGRETIRE_DUMMY_PAREMETER_NAME) = 21"
    and v: "length (cstring PGRETIRE_DUMMY_PAREMETER_VALUE) = 22"
    using sizeof_name sizeof_value by (simp_all add: sizeof_literal_def)
  have ln: "length PGRETIRE_DUMMY_PAREMETER_NAME = 20"
    and lv: "length PGRETIRE_DUMMY_PAREMETER_VALUE = 21"
    using n v by (simp_all add: cstring_def)
  have "length b0 = 128"
    using assms(2) by (simp add: WBUFSIZE_def)
  then have "build_dummy_message pf port b0 =
     Some (\<lparr>buf = [0x53] @ be32 47 @ cstring PGRETIRE_DUMMY_PAREMETER_NAME
                   @ cstring PGRETIRE_DUMMY_PAREMETER_VALUE @ drop 48 b0, pos = 48\<rparr>,
           [1, 4, 21, 22])"
    using assms(1) by (rule build_v3)
  then show ?thesis
    by (simp add: contents_def length_be32 n v ln lv) (simp add: cstring_def)
qed

theorem modern_probe_message_witness:
  "3 \<le> PG_PROTOCOL_MAJOR (proto example_port)
   \<and> (\<exists>cb rets. build_dummy_message example_platform example_port (replicate 128 0) = Some (cb, rets)
         \<and> contents cb = [0x53, 0, 0, 0, 47] @ map of_char ''pg_retire_dummy_name'' @ [0]
                          @ map of_char ''pg_retire_dummy_value'' @ [0])"
  using modern_probe_message [of example_port "replicate 128 0" example_platform]
  by (auto simp add: example_port_def PG_PROTOCOL_MAJOR_def WBUFSIZE_def be32_def
      PGRETIRE_DUMMY_PAREMETER_NAME_def PGRETIRE_DUMMY_PAREMETER_VALUE_def)

text \<open>
  Claim C3. For a buffer whose cursor is a position of the array (\<open>0 \<le> pos \<le> 128\<close>) and
  any run of bytes that a C object can hold: an append that would pass the capacity returns
  \<open>-1\<close> and leaves the buffer, cursor and bytes, as it was; any other append returns the
  length, stores the bytes at the old cursor, leaves every other byte alone, moves the
  cursor on by exactly the length, and the cursor is still at most 128.
\<close>

theorem write_cbuf_bounded:
  assumes "length (buf cb) = WBUFSIZE" and "0 \<le> pos cb" and "pos cb \<le> 128"
    and "length src \<le> PTRDIFF_MAX"
  shows "if pos cb + int (length src) > 128
         then write_cbuf cb src = Some (cb, - 1)
         else (\<exists>cb'. write_cbuf cb src = Some (cb', int (length src))
                \<and> pos cb' = pos cb + int (length src)
                \<and> pos cb' \<le> 128
                \<and> length (buf cb') = WBUFSIZE
                \<and> buf cb' = take (nat (pos cb)) (buf cb) @ src
                             @ drop (nat (pos cb) + length src) (buf cb))"
proof -
  have guard: "size_t_add (size_t_of_int (pos cb)) (length src mod SIZE_MODULUS)
               = nat (pos cb) + length src"
    using assms(2-4) by (rule size_t_guard_exact)
  show ?thesis
  proof (cases "pos cb + int (length src) > 128")
    case True
    then have "\<not> nat (pos cb) + length src \<le> WBUFSIZE"
      using assms(2) by (simp add: WBUFSIZE_def)
    then show ?thesis
      using True by (simp add: write_cbuf_def guard)
  next
    case False
    then have fits: "nat (pos cb) + length src \<le> WBUFSIZE"
      using assms(2) by (simp add: WBUFSIZE_def)
    then have inb: "nat (pos cb) + length src \<le> length (buf cb)"
      using assms(1) by simp
    show ?thesis
      using False fits inb assms(1,2)
      by (simp add: write_cbuf_def guard Let_def length_copy_loop copy_loop_eq)
  qed
qed

theorem write_cbuf_bounded_witness:
  "write_cbuf \<lparr>buf = replicate 128 0, pos = 127\<rparr> [1, 2]
     = Some (\<lparr>buf = replicate 128 0, pos = 127\<rparr>, - 1)
   \<and> (\<exists>cb'. write_cbuf \<lparr>buf = replicate 128 0, pos = 126\<rparr> [1, 2] = Some (cb', 2)
        \<and> pos cb' = 128
        \<and> buf cb' = replicate 126 0 @ [1, 2])"
proof -
  have a: "write_cbuf \<lparr>buf = replicate 128 0, pos = 127\<rparr> [1, 2]
             = Some (\<lparr>buf = replicate 128 0, pos = 127\<rparr>, - 1)"
    using write_cbuf_bounded [of "\<lparr>buf = replicate 128 0, pos = 127\<rparr>" "[1, 2]"]
    by (simp add: WBUFSIZE_def PTRDIFF_MAX_def)
  have b: "\<exists>cb'. write_cbuf \<lparr>buf = replicate 128 0, pos = 126\<rparr> [1, 2] = Some (cb', 2)
        \<and> pos cb' = 128
        \<and> buf cb' = replicate 126 0 @ [1, 2]"
    using write_cbuf_bounded [of "\<lparr>buf = replicate 128 0, pos = 126\<rparr>" "[1, 2]"]
    by (auto simp add: WBUFSIZE_def PTRDIFF_MAX_def)
  from a b show ?thesis by blast
qed

text \<open>
  Claim C4. On a connection whose writes go to the socket: a \<open>write\<close> that fails with
  \<open>EAGAIN\<close> or \<open>EWOULDBLOCK\<close> ends the flush with result 0, the sanity check says alive,
  and the alarm handler sends no signal; a \<open>write\<close> that fails with \<open>EINTR\<close> is followed by the
  same \<open>write\<close> again (same offset, same count); a \<open>write\<close> that takes \<open>n\<close> bytes,
  \<open>0 < n < wlen\<close>, is followed by a \<open>write\<close> of the remaining \<open>wlen - n\<close> bytes at offset
  \<open>offset + n\<close>.
\<close>

theorem flush_transient_errors:
  assumes "\<not> (USE_SSL pf \<and> ssl_in_use (MyProcPort w))"
  shows "(sock_script w (nwrites w) = WError e \<and> (e = EAGAIN \<or> e = EWOULDBLOCK)
            \<longrightarrow> flush_loop pf b (MyProcPort w) wlen offset r w
                  = Some (0, w\<lparr>errno := e, nwrites := Suc (nwrites w)\<rparr>))
       \<and> (sock_script w (nwrites w) = WError e \<and> (e = EAGAIN \<or> e = EWOULDBLOCK)
            \<and> length (stack_buf w) = WBUFSIZE
            \<longrightarrow> doSanityCheck pf w = Some (True, w\<lparr>errno := e, nwrites := Suc (nwrites w)\<rparr>))
       \<and> (sock_script w (nwrites w) = WError e \<and> (e = EAGAIN \<or> e = EWOULDBLOCK)
            \<and> length (stack_buf w) = WBUFSIZE \<and> \<not> INTERRUPT_PENDING_TEST w
            \<longrightarrow> (\<exists>w'. pg_retire_alarm_handler pf w = Some w' \<and> kills w' = kills w))
       \<and> (sock_script w (nwrites w) = WError EINTR
            \<longrightarrow> flush_loop pf b (MyProcPort w) wlen offset r w
                  = flush_loop pf b (MyProcPort w) wlen offset (- 1)
                      (w\<lparr>errno := EINTR, nwrites := Suc (nwrites w)\<rparr>))
       \<and> (sock_script w (nwrites w) = Wrote n \<and> 0 < n \<and> n < wlen
            \<longrightarrow> flush_loop pf b (MyProcPort w) wlen offset r w
                  = flush_loop pf b (MyProcPort w) (wlen - n) (offset + n) n
                      (w\<lparr>nwrites := Suc (nwrites w),
                         sent := sent w @ take (nat n) (drop (nat offset) b)\<rparr>))"
proof -
  note step = flush_loop_plain [OF assms]
  have intr: "flush_loop pf b (MyProcPort w) wlen offset r w
                = flush_loop pf b (MyProcPort w) wlen offset (- 1)
                    (w\<lparr>errno := EINTR, nwrites := Suc (nwrites w)\<rparr>)"
    if "sock_script w (nwrites w) = WError EINTR"
    using that by (subst step) simp
  have part: "flush_loop pf b (MyProcPort w) wlen offset r w
                = flush_loop pf b (MyProcPort w) (wlen - n) (offset + n) n
                    (w\<lparr>nwrites := Suc (nwrites w),
                       sent := sent w @ take (nat n) (drop (nat offset) b)\<rparr>)"
    if "sock_script w (nwrites w) = Wrote n" and "0 < n" and "n < wlen"
    using that by (subst step) simp
  show ?thesis
    using flush_wouldblock [OF assms] doSanityCheck_wouldblock [OF assms]
      handler_wouldblock [OF assms] intr part
    by (simp add: WBUFSIZE_def)
qed

theorem flush_transient_errors_witness:
  "(\<exists>w'. doSanityCheck example_platform wouldblock_world = Some (True, w') \<and> nwrites w' = 1)
   \<and> (\<exists>w'. pg_retire_alarm_handler example_platform wouldblock_world = Some w' \<and> kills w' = [])
   \<and> flush_loop example_platform (replicate 128 7) example_port 48 0 0 interrupted_world
       = Some (0, interrupted_world\<lparr>errno := EINTR, nwrites := 2, sent := replicate 48 7\<rparr>)
   \<and> flush_loop example_platform (replicate 128 7) example_port 48 0 0 partial_world
       = Some (0, partial_world\<lparr>nwrites := 2, sent := replicate 48 7\<rparr>)"
proof -
  have plain: "\<not> (USE_SSL example_platform \<and> ssl_in_use (MyProcPort wouldblock_world))"
    "\<not> (USE_SSL example_platform \<and> ssl_in_use (MyProcPort interrupted_world))"
    "\<not> (USE_SSL example_platform \<and> ssl_in_use (MyProcPort partial_world))"
    by (simp_all add: wouldblock_world_def interrupted_world_def partial_world_def
        example_world_def example_port_def)
  have a: "\<exists>w'. doSanityCheck example_platform wouldblock_world = Some (True, w') \<and> nwrites w' = 1"
    using flush_transient_errors [OF plain(1), of EAGAIN]
    by (simp add: wouldblock_world_def example_world_def EAGAIN_def WBUFSIZE_def)
  have b: "\<exists>w'. pg_retire_alarm_handler example_platform wouldblock_world = Some w' \<and> kills w' = []"
    using flush_transient_errors [OF plain(1), of EAGAIN]
    by (simp add: wouldblock_world_def example_world_def EAGAIN_def WBUFSIZE_def
        INTERRUPT_PENDING_TEST_def)
  have c: "flush_loop example_platform (replicate 128 7) example_port 48 0 0 interrupted_world
       = flush_loop example_platform (replicate 128 7) example_port 48 0 (- 1)
           (interrupted_world\<lparr>errno := EINTR, nwrites := 1\<rparr>)"
    using flush_transient_errors [OF plain(2), of _ "replicate 128 7" 48 0 0]
    by (simp add: interrupted_world_def example_world_def EINTR_def)
  have c': "flush_loop example_platform (replicate 128 7) example_port 48 0 (- 1)
           (interrupted_world\<lparr>errno := EINTR, nwrites := 1\<rparr>)
       = Some (0, interrupted_world\<lparr>errno := EINTR, nwrites := 2, sent := replicate 48 7\<rparr>)"
    by (subst flush_loop_plain)
       (simp_all add: interrupted_world_def example_world_def example_port_def)
  have d: "flush_loop example_platform (replicate 128 7) example_port 48 0 0 partial_world
       = flush_loop example_platform (replicate 128 7) example_port 38 10 10
           (partial_world\<lparr>nwrites := 1, sent := replicate 10 7\<rparr>)"
    using flush_transient_errors [OF plain(3), of _ "replicate 128 7" 48 0 0 10]
    by (simp add: partial_world_def example_world_def)
  have d': "flush_loop example_platform (replicate 128 7) example_port 38 10 10
           (partial_world\<lparr>nwrites := 1, sent := replicate 10 7\<rparr>)
       = Some (0, partial_world\<lparr>nwrites := 2, sent := replicate 48 7\<rparr>)"
    by (subst flush_loop_plain)
       (simp_all add: partial_world_def example_world_def example_port_def
          flip: replicate_add)
  from a b c c' d d' show ?thesis by simp
qed

text \<open>
  Claim C5. On a connection whose writes go to the socket, a \<open>write\<close> that fails with an
  error other than \<open>EINTR\<close>, \<open>EAGAIN\<close> and \<open>EWOULDBLOCK\<close> ends the flush with \<open>-1\<close>,
  wherever in the loop it happens, and the sanity check says dead. Whenever the sanity check
  says dead, the alarm handler calls \<open>cancelTransaction\<close> once: the signals it adds are
  \<open>SIGINT\<close> to the process group (only where \<open>HAVE_SETSID\<close> is defined) and then \<open>SIGINT\<close>
  to the process itself, and nothing more. The last part gives the handler's whole result
  when it is the first \<open>write\<close> that fails.
\<close>

theorem hard_write_error_cancels_once:
  "(\<not> (USE_SSL pf \<and> ssl_in_use (MyProcPort w))
      \<and> sock_script w (nwrites w) = WError e
      \<and> e \<noteq> EINTR \<and> e \<noteq> EAGAIN \<and> e \<noteq> EWOULDBLOCK
     \<longrightarrow> flush_loop pf b (MyProcPort w) wlen offset r w
           = Some (- 1, w\<lparr>errno := e, nwrites := Suc (nwrites w)\<rparr>))
   \<and> (\<not> (USE_SSL pf \<and> ssl_in_use (MyProcPort w))
      \<and> sock_script w (nwrites w) = WError e
      \<and> e \<noteq> EINTR \<and> e \<noteq> EAGAIN \<and> e \<noteq> EWOULDBLOCK
      \<and> length (stack_buf w) = WBUFSIZE
     \<longrightarrow> doSanityCheck pf w = Some (False, w\<lparr>errno := e, nwrites := Suc (nwrites w)\<rparr>))
   \<and> (\<not> INTERRUPT_PENDING_TEST w
      \<and> doSanityCheck pf (PG_SETMASK w True) = Some (False, w1)
     \<longrightarrow> pg_retire_alarm_handler pf w
           = Some (w1\<lparr>kills := kills w1
                         @ (if HAVE_SETSID pf then [(- MyProcPid w1, SIGINT)] else [])
                         @ [(MyProcPid w1, SIGINT)],
                       sigmask_blocked := False, errno := errno w\<rparr>))
   \<and> (\<not> (USE_SSL pf \<and> ssl_in_use (MyProcPort w))
      \<and> sock_script w (nwrites w) = WError e
      \<and> e \<noteq> EINTR \<and> e \<noteq> EAGAIN \<and> e \<noteq> EWOULDBLOCK
      \<and> length (stack_buf w) = WBUFSIZE
      \<and> \<not> INTERRUPT_PENDING_TEST w
     \<longrightarrow> pg_retire_alarm_handler pf w
           = Some (w\<lparr>kills := kills w
                        @ (if HAVE_SETSID pf then [(- MyProcPid w, SIGINT)] else [])
                        @ [(MyProcPid w, SIGINT)],
                      nwrites := Suc (nwrites w),
                      sigmask_blocked := False\<rparr>))"
proof -
  have dead: "pg_retire_alarm_handler pf w
           = Some (w1\<lparr>kills := kills w1
                         @ (if HAVE_SETSID pf then [(- MyProcPid w1, SIGINT)] else [])
                         @ [(MyProcPid w1, SIGINT)],
                       sigmask_blocked := False, errno := errno w\<rparr>)"
    if "\<not> INTERRUPT_PENDING_TEST w"
      and "doSanityCheck pf (PG_SETMASK w True) = Some (False, w1)" for w1
    using handler_after_check [OF that]
    by (simp add: cancelTransaction_def kill_def Let_def)
  have first: "pg_retire_alarm_handler pf w
           = Some (w\<lparr>kills := kills w
                        @ (if HAVE_SETSID pf then [(- MyProcPid w, SIGINT)] else [])
                        @ [(MyProcPid w, SIGINT)],
                      nwrites := Suc (nwrites w),
                      sigmask_blocked := False\<rparr>)"
    if "\<not> (USE_SSL pf \<and> ssl_in_use (MyProcPort w))"
      and "sock_script w (nwrites w) = WError e"
      and "e \<noteq> EINTR" and "e \<noteq> EAGAIN" and "e \<noteq> EWOULDBLOCK"
      and "length (stack_buf w) = 128" and "\<not> INTERRUPT_PENDING_TEST w"
  proof -
    have "doSanityCheck pf (PG_SETMASK w True)
            = Some (False, (PG_SETMASK w True)\<lparr>errno := e, nwrites := Suc (nwrites w)\<rparr>)"
      using that(1-6) doSanityCheck_hard_error [of pf "PG_SETMASK w True" e] by simp
    from dead [OF that(7) this] show ?thesis
      by (simp add: PG_SETMASK_def)
  qed
  show ?thesis
    using flush_hard_error [of pf "MyProcPort w" w e b wlen offset r]
      doSanityCheck_hard_error [of pf w e] dead first
    by (simp add: WBUFSIZE_def)
qed

theorem hard_write_error_cancels_once_witness:
  "flush_loop example_platform (replicate 128 7) example_port 38 10 10 dead_world
     = Some (- 1, dead_world\<lparr>errno := 32, nwrites := 1\<rparr>)
   \<and> doSanityCheck example_platform dead_world
       = Some (False, dead_world\<lparr>errno := 32, nwrites := 1\<rparr>)
   \<and> doSanityCheck example_platform (PG_SETMASK dead_world True) = Some (False, dead_after_probe)
   \<and> pg_retire_alarm_handler example_platform dead_world
       = Some (dead_world\<lparr>kills := [(- 4242, 2), (4242, 2)], nwrites := 1,
                          sigmask_blocked := False\<rparr>)"
proof -
  have h: "\<not> (USE_SSL example_platform \<and> ssl_in_use (MyProcPort dead_world))"
    "sock_script dead_world (nwrites dead_world) = WError 32"
    "(32::int) \<noteq> EINTR" "(32::int) \<noteq> EAGAIN" "(32::int) \<noteq> EWOULDBLOCK"
    "length (stack_buf dead_world) = WBUFSIZE"
    "\<not> INTERRUPT_PENDING_TEST dead_world"
    "MyProcPort dead_world = example_port"
    by (simp_all add: dead_world_def example_world_def example_port_def EINTR_def EAGAIN_def
        EWOULDBLOCK_def WBUFSIZE_def INTERRUPT_PENDING_TEST_def)
  have a: "flush_loop example_platform (replicate 128 7) example_port 38 10 10 dead_world
     = Some (- 1, dead_world\<lparr>errno := 32, nwrites := 1\<rparr>)"
    using hard_write_error_cancels_once [of example_platform dead_world 32 "replicate 128 7" 38 10 10] h
    by (simp add: dead_world_def example_world_def)
  have b: "doSanityCheck example_platform dead_world
       = Some (False, dead_world\<lparr>errno := 32, nwrites := 1\<rparr>)"
    using hard_write_error_cancels_once [of example_platform dead_world 32] h
    by (simp add: dead_world_def example_world_def)
  have c: "doSanityCheck example_platform (PG_SETMASK dead_world True) = Some (False, dead_after_probe)"
    using hard_write_error_cancels_once [of example_platform "PG_SETMASK dead_world True" 32] h
    by (simp add: dead_after_probe_def PG_SETMASK_def dead_world_def example_world_def)
  have d: "pg_retire_alarm_handler example_platform dead_world
       = Some (dead_world\<lparr>kills := [(- 4242, 2), (4242, 2)], nwrites := 1,
                          sigmask_blocked := False\<rparr>)"
    using hard_write_error_cancels_once [of example_platform dead_world 32 _ _ _ _ dead_after_probe] h(7) c
    by (simp add: dead_after_probe_def dead_world_def example_world_def example_platform_def SIGINT_def)
  from a b c d show ?thesis by blast
qed

text \<open>
  Claim C6. With no registered timeout \<open>maybeScheduleAlarm\<close> returns false and changes
  nothing. With one: if the fired indicator is set it arms a deadline and returns true; else
  if a deadline is pending it returns false and changes nothing; else it arms a deadline and
  returns true. So it arms only when the previous deadline has fired or none is pending, and
  a second call made while the deadline it armed is still pending does nothing.
\<close>

theorem maybeScheduleAlarm_policy:
  "(TIMEOUT_INVALID w \<longrightarrow> maybeScheduleAlarm w = (False, w))
   \<and> (\<not> TIMEOUT_INVALID w \<and> deadline_fired w \<longrightarrow> maybeScheduleAlarm w = (True, arm_deadline w))
   \<and> (\<not> TIMEOUT_INVALID w \<and> \<not> deadline_fired w \<and> deadline_pending w
        \<longrightarrow> maybeScheduleAlarm w = (False, w))
   \<and> (\<not> TIMEOUT_INVALID w \<and> \<not> deadline_fired w \<and> \<not> deadline_pending w
        \<longrightarrow> maybeScheduleAlarm w = (True, arm_deadline w))
   \<and> (fst (maybeScheduleAlarm w) \<longrightarrow> deadline_fired w \<or> \<not> deadline_pending w)
   \<and> (\<not> fst (maybeScheduleAlarm w) \<longrightarrow> snd (maybeScheduleAlarm w) = w)
   \<and> (fst (maybeScheduleAlarm w) \<and> deadline_pending ((snd (maybeScheduleAlarm w))\<lparr>now := t\<rparr>)
        \<longrightarrow> maybeScheduleAlarm ((snd (maybeScheduleAlarm w))\<lparr>now := t\<rparr>)
            = (False, (snd (maybeScheduleAlarm w))\<lparr>now := t\<rparr>))"
proof -
  have again: "maybeScheduleAlarm ((arm_deadline w)\<lparr>now := t\<rparr>) = (False, (arm_deadline w)\<lparr>now := t\<rparr>)"
    if "\<not> TIMEOUT_INVALID w" and "deadline_pending ((arm_deadline w)\<lparr>now := t\<rparr>)"
  proof -
    have "\<not> TIMEOUT_INVALID ((arm_deadline w)\<lparr>now := t\<rparr>)"
      using that(1) by (simp add: TIMEOUT_INVALID_def arm_deadline_def enable_timeout_after_def)
    moreover have "\<not> deadline_fired ((arm_deadline w)\<lparr>now := t\<rparr>)"
      by (simp add: deadline_fired_def arm_deadline_def enable_timeout_after_def)
    ultimately show ?thesis
      using that(2) by (simp add: maybeScheduleAlarm_eq)
  qed
  show ?thesis
    using again by (auto simp add: maybeScheduleAlarm_eq)
qed

theorem maybeScheduleAlarm_policy_witness:
  "maybeScheduleAlarm unregistered_world = (False, unregistered_world)
   \<and> maybeScheduleAlarm fired_world = (True, arm_deadline fired_world)
   \<and> maybeScheduleAlarm pending_world = (False, pending_world)
   \<and> maybeScheduleAlarm example_world = (True, arm_deadline example_world)
   \<and> fin_time (all_timeouts (arm_deadline example_world) 9) = 6000000
   \<and> maybeScheduleAlarm ((arm_deadline example_world)\<lparr>now := 5999999\<rparr>)
       = (False, (arm_deadline example_world)\<lparr>now := 5999999\<rparr>)"
proof -
  have a: "maybeScheduleAlarm unregistered_world = (False, unregistered_world)"
    using maybeScheduleAlarm_policy [of unregistered_world]
    by (simp add: unregistered_world_def example_world_def TIMEOUT_INVALID_def MAX_TIMEOUTS_def)
  have b: "maybeScheduleAlarm fired_world = (True, arm_deadline fired_world)"
    using maybeScheduleAlarm_policy [of fired_world]
    by (simp add: fired_world_def example_world_def fired_timeouts_def TIMEOUT_INVALID_def
        MAX_TIMEOUTS_def deadline_fired_def)
  have c: "maybeScheduleAlarm pending_world = (False, pending_world)"
    using maybeScheduleAlarm_policy [of pending_world]
    by (simp add: pending_world_def example_world_def TIMEOUT_INVALID_def
        MAX_TIMEOUTS_def deadline_fired_def deadline_pending_def)
  have d: "maybeScheduleAlarm example_world = (True, arm_deadline example_world)"
    using maybeScheduleAlarm_policy [of example_world]
    by (simp add: example_world_def idle_timeouts_def TIMEOUT_INVALID_def
        MAX_TIMEOUTS_def deadline_fired_def deadline_pending_def)
  have e: "fin_time (all_timeouts (arm_deadline example_world) 9) = 6000000"
    by (simp add: arm_deadline_def enable_timeout_after_def GetCurrentTimestamp_def
        MILLISECONDS_def int32_wrap_def example_world_def)
  have f: "maybeScheduleAlarm ((arm_deadline example_world)\<lparr>now := 5999999\<rparr>)
       = (False, (arm_deadline example_world)\<lparr>now := 5999999\<rparr>)"
    using maybeScheduleAlarm_policy [of example_world 5999999] d e
    by (simp add: deadline_pending_def arm_deadline_def enable_timeout_after_def
        example_world_def)
  from a b c d e f show ?thesis by blast
qed

text \<open>
  Claim C7 says that over SSL the transmitter makes no \<open>write\<close> and always answers alive.
  No \<open>write\<close> is made; but the answer is then taken from the local \<open>r\<close>, which was never
  assigned, and from \<open>errno\<close>, which no call has set. With \<open>r = 0\<close> and \<open>errno = 0\<close> the
  sanity check says dead and the handler sends the two signals.
\<close>

theorem ssl_probe_not_always_alive:
  "ssl_in_use (MyProcPort ssl_world) \<and> USE_SSL example_platform
   \<and> (\<exists>w'. doSanityCheck example_platform ssl_world = Some (False, w') \<and> nwrites w' = 0)
   \<and> (\<exists>w'. pg_retire_alarm_handler example_platform ssl_world = Some w'
          \<and> nwrites w' = 0 \<and> sent w' = []
          \<and> kills w' = [(- 4242, SIGINT), (4242, SIGINT)])"
proof -
  have loop: "flush_loop example_platform b (example_port\<lparr>ssl_in_use := True\<rparr>) wlen offset 0 w
        = Some (- 1, ereport w DEBUG3 ''pg_retire does not support use in ssl'')"
    if "errno w = 0" for b wlen offset w
    using that
    by (subst flush_loop.simps)
       (simp add: example_platform_def example_port_def ereport_def EINTR_def EAGAIN_def EWOULDBLOCK_def)
  have check: "doSanityCheck example_platform w
        = Some (False, ereport w DEBUG3 ''pg_retire does not support use in ssl'')"
    if "errno w = 0" and "stack_r w = 0" and "stack_buf w = replicate 128 0"
      and "MyProcPort w = example_port\<lparr>ssl_in_use := True\<rparr>" for w
    using that by (simp add: doSanityCheck_eq send_eq loop)
  have c1: "doSanityCheck example_platform ssl_world
        = Some (False, ereport ssl_world DEBUG3 ''pg_retire does not support use in ssl'')"
    by (rule check) (simp_all add: ssl_world_def example_world_def)
  have c2: "doSanityCheck example_platform (PG_SETMASK ssl_world True)
        = Some (False, ereport (PG_SETMASK ssl_world True) DEBUG3 ''pg_retire does not support use in ssl'')"
    by (rule check) (simp_all add: ssl_world_def example_world_def PG_SETMASK_def)
  have idle: "\<not> INTERRUPT_PENDING_TEST ssl_world"
    by (simp add: INTERRUPT_PENDING_TEST_def ssl_world_def example_world_def)
  have h: "\<exists>w'. pg_retire_alarm_handler example_platform ssl_world = Some w'
          \<and> nwrites w' = 0 \<and> sent w' = []
          \<and> kills w' = [(- 4242, SIGINT), (4242, SIGINT)]"
    unfolding handler_after_check [OF idle c2]
    by (simp add: cancelTransaction_def kill_def ereport_def
        PG_SETMASK_def ssl_world_def example_world_def example_platform_def)
  show ?thesis
    using h c1
    by (simp add: ssl_world_def example_world_def example_platform_def ereport_def)
qed

text \<open>
  Claim C8, as stated, fails: with \<open>InterruptPending\<close> set and \<open>ParallelMessagePending\<close>
  set as well, the hook is not skipped; for a \<open>SELECT\<close> it arms a deadline.
\<close>

theorem rearm_not_skipped_when_parallel_message_pending:
  "InterruptPending both_pending_world
   \<and> \<not> active (all_timeouts both_pending_world (MyTimeoutId both_pending_world))
   \<and> active (all_timeouts (pg_retire_post_parse_analyze None CMD_SELECT both_pending_world)
               (MyTimeoutId both_pending_world))"
  by (simp add: both_pending_world_def example_world_def idle_timeouts_def
      pg_retire_post_parse_analyze_def call_prev_hook_def INTERRUPT_PENDING_TEST_def
      maybeScheduleAlarm_eq TIMEOUT_INVALID_def MAX_TIMEOUTS_def deadline_fired_def
      deadline_pending_def arm_deadline_def enable_timeout_after_def ereport_def)

text \<open>
  Claim C8, amended. \<open>pg_retire_post_parse_analyze\<close> does nothing beyond calling the
  previous hook when the command is a utility statement, and when, after the previous hook,
  \<open>InterruptPending\<close> is set and \<open>ParallelMessagePending\<close> is not.
\<close>

theorem rearm_path_skips:
  "(commandType = CMD_UTILITY
      \<longrightarrow> pg_retire_post_parse_analyze prev commandType w = call_prev_hook prev w)
   \<and> (InterruptPending (call_prev_hook prev w) \<and> \<not> ParallelMessagePending (call_prev_hook prev w)
      \<longrightarrow> pg_retire_post_parse_analyze prev commandType w = call_prev_hook prev w)"
  by (simp add: pg_retire_post_parse_analyze_def Let_def INTERRUPT_PENDING_TEST_def)

theorem rearm_path_skips_witness:
  "pg_retire_post_parse_analyze None CMD_UTILITY example_world = example_world
   \<and> InterruptPending cancelling_world \<and> \<not> ParallelMessagePending cancelling_world
   \<and> pg_retire_post_parse_analyze None CMD_SELECT cancelling_world = cancelling_world"
proof -
  have a: "pg_retire_post_parse_analyze None CMD_UTILITY example_world = example_world"
    using rearm_path_skips [of CMD_UTILITY None example_world]
    by (simp add: call_prev_hook_def)
  have b: "InterruptPending cancelling_world" "\<not> ParallelMessagePending cancelling_world"
    by (simp_all add: cancelling_world_def example_world_def)
  have c: "pg_retire_post_parse_analyze None CMD_SELECT cancelling_world = cancelling_world"
    using rearm_path_skips [of CMD_SELECT None cancelling_world] b
    by (simp add: call_prev_hook_def)
  from a b c show ?thesis by blast
qed

text \<open>
  Claim C9 says that for every interval in the declared range the deadline armed is that many
  seconds ahead, the milliseconds computed without overflow. That holds up to 2147483
  (lemma \<open>arm_deadline_in_range\<close>). The interval 2147484 lies in the declared range, yet
  \<open>MILLISECONDS\<close> of it is not 2147484000: the product passes \<open>INT_MAX\<close>, and the deadline
  armed lies in the past instead of 2147484 seconds ahead.
\<close>

theorem long_interval_overflows:
  "interval_in_declared_range (pg_retire_interval long_interval_world)
   \<and> MILLISECONDS (pg_retire_interval long_interval_world) = - 2147483296
   \<and> fst (maybeScheduleAlarm long_interval_world)
   \<and> fin_time (all_timeouts (snd (maybeScheduleAlarm long_interval_world)) (MyTimeoutId long_interval_world))
       = now long_interval_world - 2147483296000
   \<and> fin_time (all_timeouts (snd (maybeScheduleAlarm long_interval_world)) (MyTimeoutId long_interval_world))
       \<noteq> now long_interval_world + pg_retire_interval long_interval_world * 1000000"
  by (simp add: long_interval_world_def example_world_def idle_timeouts_def interval_in_declared_range_def
      INT_MAX_def maybeScheduleAlarm_eq TIMEOUT_INVALID_def MAX_TIMEOUTS_def deadline_fired_def
      deadline_pending_def arm_deadline_def enable_timeout_after_def GetCurrentTimestamp_def
      MILLISECONDS_def int32_wrap_def)

text \<open>
  Claim C10. For both payloads every call of \<open>write_cbuf\<close> returns the length it was given
  (1, 4, 21 and 22 for the modern message, 1 and 35 for the legacy one), never \<open>-1\<close>; the
  cursor ends at 48 or 36; \<open>flush_cbuf\<close> is handed the whole message, none of it cut off by
  a refused append; and a socket that takes that many bytes receives exactly the contents of
  the buffer.
\<close>

theorem probe_construction_never_overflows:
  assumes "length (stack_buf w) = WBUFSIZE"
  shows "\<exists>cb rets. build_dummy_message pf (MyProcPort w) (stack_buf w) = Some (cb, rets)
           \<and> - 1 \<notin> set rets
           \<and> (if 3 \<le> PG_PROTOCOL_MAJOR (proto (MyProcPort w))
               then rets = [1, 4, 21, 22] \<and> pos cb = 48
               else rets = [1, 35] \<and> pos cb = 36)
           \<and> length (contents cb) = nat (pos cb)
           \<and> send_dummy_message_to_frontend pf w
               = flush_loop pf (buf cb) (MyProcPort w) (pos cb) 0 (stack_r w) w
           \<and> (\<not> (USE_SSL pf \<and> ssl_in_use (MyProcPort w))
                \<and> sock_script w (nwrites w) = Wrote (pos cb)
              \<longrightarrow> send_dummy_message_to_frontend pf w
                   = Some (0, w\<lparr>nwrites := Suc (nwrites w), sent := sent w @ contents cb\<rparr>))"
proof -
  have len: "length (stack_buf w) = 128"
    using assms by (simp add: WBUFSIZE_def)
  have n: "length (cstring PGRETIRE_DUMMY_PAREMETER_NAME) = 21"
    and v: "length (cstring PGRETIRE_DUMMY_PAREMETER_VALUE) = 22"
    and m: "length (cstring PGRETIRE_KEEP_ALIVE_MESSAGE) = 35"
    using sizeof_name sizeof_value sizeof_notice by (simp_all add: sizeof_literal_def)
  show ?thesis
  proof (cases "3 \<le> PG_PROTOCOL_MAJOR (proto (MyProcPort w))")
    case True
    note b = build_v3 [OF len True, of pf]
    show ?thesis
      using True len
      by (simp add: b contents_def send_dummy_message_to_frontend_def flush_cbuf_def
          flush_full_write length_be32 n v)
  next
    case False
    note b = build_v2 [OF len False, of pf]
    show ?thesis
      using False len
      by (simp add: b contents_def send_dummy_message_to_frontend_def flush_cbuf_def
          flush_full_write m)
  qed
qed

theorem probe_construction_never_overflows_witness:
  "length (stack_buf example_world) = WBUFSIZE
   \<and> (\<exists>cb rets. build_dummy_message example_platform (MyProcPort example_world)
                   (stack_buf example_world) = Some (cb, rets)
         \<and> rets = [1, 4, 21, 22] \<and> pos cb = 48
         \<and> (\<exists>w'. send_dummy_message_to_frontend example_platform example_world = Some (0, w')
                \<and> nwrites w' = 1 \<and> sent w' = contents cb))"
proof -
  have len: "length (stack_buf example_world) = WBUFSIZE"
    by (simp add: example_world_def WBUFSIZE_def)
  have modern: "3 \<le> PG_PROTOCOL_MAJOR (proto (MyProcPort example_world))"
    by (simp add: example_world_def example_port_def PG_PROTOCOL_MAJOR_def)
  have plain: "\<not> (USE_SSL example_platform \<and> ssl_in_use (MyProcPort example_world))"
    by (simp add: example_world_def example_port_def)
  from probe_construction_never_overflows [OF len, of example_platform]
  obtain cb rets where
    b: "build_dummy_message example_platform (MyProcPort example_world)
          (stack_buf example_world) = Some (cb, rets)"
    and r: "rets = [1, 4, 21, 22]" and p: "pos cb = 48"
    and s: "sock_script example_world (nwrites example_world) = Wrote (pos cb)
            \<longrightarrow> send_dummy_message_to_frontend example_platform example_world
                = Some (0, example_world\<lparr>nwrites := Suc (nwrites example_world),
                                          sent := sent example_world @ contents cb\<rparr>)"
    using modern plain by auto
  have "sock_script example_world (nwrites example_world) = Wrote (pos cb)"
    using p by (simp add: example_world_def)
  with s have "send_dummy_message_to_frontend example_platform example_world
                = Some (0, example_world\<lparr>nwrites := Suc (nwrites example_world),
                                          sent := sent example_world @ contents cb\<rparr>)"
    by simp
  then have "\<exists>w'. send_dummy_message_to_frontend example_platform example_world = Some (0, w')
                \<and> nwrites w' = 1 \<and> sent w' = contents cb"
    by (simp add: example_world_def)
  with len b r p show ?thesis by blast
qed

end
